theory Spec2Isabelle
  imports Main "HOL-Library.Word"
begin

section \<open>Strings of the host language\<close>

text \<open>
  A JavaScript string is a sequence of UTF-16 code units; \<open>length\<close>, \<open>slice\<close> and
  \<open>trim\<close> all count and inspect code units. String literals of the source are ASCII
  and are written with \<open>lit\<close>.
\<close>

type_synonym code_unit = "16 word"
type_synonym js_string = "code_unit list"

definition lit :: "string \<Rightarrow> js_string" where
  "lit s = map of_char s"

text \<open>
  \<open>String.prototype.slice(start, end)\<close>: a negative index counts from the end, both
  indices are clamped to the string, and an empty range gives the empty string.
\<close>

definition slice_string :: "int \<Rightarrow> int \<Rightarrow> js_string \<Rightarrow> js_string" where
  "slice_string start end s =
     (let len = int (length s);
          from = (if start < 0 then max (len + start) 0 else min start len);
          to = (if end < 0 then max (len + end) 0 else min end len)
      in take (nat (to - from)) (drop (nat from) s))"

text \<open>
  \<open>String.prototype.trim\<close> removes WhiteSpace and LineTerminator code points from both
  ends. All of them lie in the basic plane, so each is one code unit.
\<close>

definition is_white_space :: "code_unit \<Rightarrow> bool" where
  "is_white_space c \<longleftrightarrow>
     c = 0x0009 \<or> c = 0x000A \<or> c = 0x000B \<or> c = 0x000C \<or> c = 0x000D \<or> c = 0x0020 \<or>
     c = 0x00A0 \<or> c = 0x1680 \<or> (0x2000 \<le> c \<and> c \<le> 0x200A) \<or> c = 0x2028 \<or>
     c = 0x2029 \<or> c = 0x202F \<or> c = 0x205F \<or> c = 0x3000 \<or> c = 0xFEFF"

definition trim :: "js_string \<Rightarrow> js_string" where
  "trim s = rev (dropWhile is_white_space (rev (dropWhile is_white_space s)))"

section \<open>Values\<close>

text \<open>
  A number is kept as the value its literal denotes, \<open>(-1)\<^sup>s \<sqdot> m \<sqdot> 10\<^sup>e\<close>. The engine
  rounds that value to binary64; the rounding is not modelled, and whole numbers of
  magnitude up to \<open>2\<^sup>5\<^sup>3\<close> are their own binary64 value.
\<close>

datatype number = Number (negative: bool) (mantissa: nat) (exponent: int)

text \<open>
  An object is the list of its own properties in creation order; \<open>put\<close> is the
  definition of a data property: a key that exists keeps its place and takes the new
  value. (An engine enumerates keys that are array indices first; nothing below
  enumerates.)
\<close>

datatype json =
    JNull
  | JBool bool
  | JNumber number
  | JString js_string
  | JArray "json list"
  | JObject "(js_string \<times> json) list"

fun put :: "js_string \<Rightarrow> json \<Rightarrow> (js_string \<times> json) list \<Rightarrow> (js_string \<times> json) list" where
  "put k v [] = [(k, v)]"
| "put k v ((k', v') # kvs) = (if k = k' then (k, v) # kvs else (k', v') # put k v kvs)"

definition field :: "string \<Rightarrow> json \<Rightarrow> json option" where
  "field k v = (case v of JObject kvs \<Rightarrow> map_of kvs (lit k) | _ \<Rightarrow> None)"

definition element :: "nat \<Rightarrow> json \<Rightarrow> json option" where
  "element i v = (case v of JArray xs \<Rightarrow> (if i < length xs then Some (xs ! i) else None) | _ \<Rightarrow> None)"

section \<open>The platform's \<open>JSON.parse\<close>\<close>

text \<open>
  \<open>JSON.parse\<close> is the host's, not this repository's. It is modelled after the JSON
  grammar: a lexer over code units, then a parser over tokens that keeps the open
  arrays and objects on a stack.
\<close>

datatype token =
    LBrace | RBrace | LBracket | RBracket | Colon | Comma
  | TString js_string | TNumber number | TTrue | TFalse | TNull

definition is_json_space :: "code_unit \<Rightarrow> bool" where
  "is_json_space c \<longleftrightarrow> c = 0x09 \<or> c = 0x0A \<or> c = 0x0D \<or> c = 0x20"

definition is_digit :: "code_unit \<Rightarrow> bool" where
  "is_digit c \<longleftrightarrow> 0x30 \<le> c \<and> c \<le> 0x39"

definition digits_value :: "js_string \<Rightarrow> nat" where
  "digits_value ds = foldl (\<lambda>n d. 10 * n + (unat d - 48)) 0 ds"

definition hex_digit :: "code_unit \<Rightarrow> code_unit option" where
  "hex_digit c =
     (if 0x30 \<le> c \<and> c \<le> 0x39 then Some (c - 0x30)
      else if 0x41 \<le> c \<and> c \<le> 0x46 then Some (c - 0x37)
      else if 0x61 \<le> c \<and> c \<le> 0x66 then Some (c - 0x57)
      else None)"

definition hex4 :: "code_unit \<Rightarrow> code_unit \<Rightarrow> code_unit \<Rightarrow> code_unit \<Rightarrow> code_unit option" where
  "hex4 a b c d =
     (case (hex_digit a, hex_digit b, hex_digit c, hex_digit d) of
        (Some h3, Some h2, Some h1, Some h0) \<Rightarrow> Some (((h3 * 16 + h2) * 16 + h1) * 16 + h0)
      | _ \<Rightarrow> None)"

definition escape :: "code_unit \<Rightarrow> code_unit option" where
  "escape c =
     (if c = 0x22 then Some 0x22 else if c = 0x5C then Some 0x5C
      else if c = 0x2F then Some 0x2F else if c = 0x62 then Some 0x08
      else if c = 0x66 then Some 0x0C else if c = 0x6E then Some 0x0A
      else if c = 0x72 then Some 0x0D else if c = 0x74 then Some 0x09
      else None)"

definition prepend :: "code_unit \<Rightarrow> (js_string \<times> js_string) option \<Rightarrow> (js_string \<times> js_string) option" where
  "prepend c r = (case r of None \<Rightarrow> None | Some (s, rest) \<Rightarrow> Some (c # s, rest))"

text \<open>
  One character of a string: an escape, or a code unit that is neither a control
  character nor the backslash. The result is the code unit denoted and the rest.
\<close>

definition string_char :: "js_string \<Rightarrow> (code_unit \<times> js_string) option" where
  "string_char cs =
     (case cs of
        [] \<Rightarrow> None
      | c # r \<Rightarrow>
          if c = 0x5C then
            (case r of
               [] \<Rightarrow> None
             | e # r' \<Rightarrow>
                 if e = 0x75 then
                   (case r' of
                      h3 # h2 # h1 # h0 # r'' \<Rightarrow> map_option (\<lambda>u. (u, r'')) (hex4 h3 h2 h1 h0)
                    | _ \<Rightarrow> None)
                 else map_option (\<lambda>u. (u, r')) (escape e))
          else if c < 0x20 then None
          else Some (c, r))"

lemma string_char_length: "string_char cs = Some (u, r) \<Longrightarrow> length r < length cs"
  by (auto simp: string_char_def split: list.splits if_splits)

text \<open>The string that follows an opening quote, up to and without the closing quote.\<close>

function scan_string :: "js_string \<Rightarrow> (js_string \<times> js_string) option" where
  "scan_string [] = None"
| "scan_string (c # cs) =
     (if c = 0x22 then Some ([], cs)
      else case string_char (c # cs) of
             None \<Rightarrow> None
           | Some (u, rest) \<Rightarrow> prepend u (scan_string rest))"
  by pat_completeness auto
termination
  by (relation "measure length") (auto dest: string_char_length)

text \<open>
  A number is an optional minus sign, an integer part without a leading zero unless it is
  the single digit zero, an optional fraction and an optional exponent. A text in which
  a number token is followed at once by a digit, a point or an exponent mark is not JSON,
  so reading the longest run of digits rejects the same texts.
\<close>

definition scan_int :: "js_string \<Rightarrow> (js_string \<times> js_string) option" where
  "scan_int cs =
     (let ds = takeWhile is_digit cs
      in if ds = [] \<or> (hd ds = 0x30 \<and> tl ds \<noteq> []) then None
         else Some (ds, dropWhile is_digit cs))"

definition scan_frac :: "js_string \<Rightarrow> (js_string \<times> js_string) option" where
  "scan_frac cs =
     (case cs of
        [] \<Rightarrow> Some ([], cs)
      | c # r \<Rightarrow>
          if c = 0x2E then
            (let fs = takeWhile is_digit r
             in if fs = [] then None else Some (fs, dropWhile is_digit r))
          else Some ([], cs))"

definition scan_digits_signed :: "js_string \<Rightarrow> (int \<times> js_string) option" where
  "scan_digits_signed cs =
     (let minus = (cs \<noteq> [] \<and> hd cs = 0x2D);
          plus = (cs \<noteq> [] \<and> hd cs = 0x2B);
          r = (if minus \<or> plus then tl cs else cs);
          es = takeWhile is_digit r
      in if es = [] then None
         else Some (if minus then - int (digits_value es) else int (digits_value es),
                    dropWhile is_digit r))"

definition scan_exp :: "js_string \<Rightarrow> (int \<times> js_string) option" where
  "scan_exp cs =
     (case cs of
        [] \<Rightarrow> Some (0, cs)
      | c # r \<Rightarrow> if c = 0x65 \<or> c = 0x45 then scan_digits_signed r else Some (0, cs))"

definition scan_number :: "js_string \<Rightarrow> (number \<times> js_string) option" where
  "scan_number cs =
     (let neg = (cs \<noteq> [] \<and> hd cs = 0x2D)
      in case scan_int (if neg then tl cs else cs) of
           None \<Rightarrow> None
         | Some (ds, cs1) \<Rightarrow>
             (case scan_frac cs1 of
                None \<Rightarrow> None
              | Some (fs, cs2) \<Rightarrow>
                  (case scan_exp cs2 of
                     None \<Rightarrow> None
                   | Some (e, cs3) \<Rightarrow>
                       Some (Number neg (digits_value (ds @ fs)) (e - int (length fs)), cs3))))"

lemma scan_string_length: "scan_string cs = Some (s, r) \<Longrightarrow> length r < length cs"
proof (induction cs arbitrary: s rule: scan_string.induct)
  case 1
  then show ?case by simp
next
  case (2 c cs)
  show ?case
  proof (cases "c = 0x22")
    case True
    with 2 show ?thesis by simp
  next
    case False
    with "2.prems" obtain u rest s' where
      sc: "string_char (c # cs) = Some (u, rest)" and rec: "scan_string rest = Some (s', r)"
      by (auto simp: prepend_def split: option.splits)
    from "2.IH" [OF False sc refl rec] string_char_length [OF sc] show ?thesis by simp
  qed
qed

lemma dropWhile_shorter: "takeWhile P xs \<noteq> [] \<Longrightarrow> length (dropWhile P xs) < length xs"
  by (cases xs) (auto simp: less_Suc_eq_le length_dropWhile_le split: if_splits)

lemma scan_int_length: "scan_int cs = Some (ds, r) \<Longrightarrow> length r < length cs"
  by (auto simp: scan_int_def Let_def dropWhile_shorter split: if_splits)

lemma scan_frac_length: "scan_frac cs = Some (fs, r) \<Longrightarrow> length r \<le> length cs"
  by (auto simp: scan_frac_def Let_def le_SucI length_dropWhile_le split: list.splits if_splits)

lemma scan_digits_signed_length: "scan_digits_signed cs = Some (e, r) \<Longrightarrow> length r \<le> length cs"
proof -
  assume a: "scan_digits_signed cs = Some (e, r)"
  have "length (dropWhile is_digit (tl cs)) \<le> length cs"
    using length_dropWhile_le [of is_digit "tl cs"] by simp
  with a show ?thesis
    by (auto simp: scan_digits_signed_def Let_def length_dropWhile_le split: if_splits)
qed

lemma scan_exp_length: "scan_exp cs = Some (e, r) \<Longrightarrow> length r \<le> length cs"
  by (auto simp: scan_exp_def le_SucI dest: scan_digits_signed_length split: list.splits if_splits)

lemma scan_number_length:
  assumes "scan_number cs = Some (n, r)"
  shows "length r < length cs"
proof -
  from assms obtain ds cs1 fs cs2 e where
    i: "scan_int (if cs \<noteq> [] \<and> hd cs = 0x2D then tl cs else cs) = Some (ds, cs1)" and
    f: "scan_frac cs1 = Some (fs, cs2)" and x: "scan_exp cs2 = Some (e, r)"
    by (auto simp: scan_number_def Let_def split: option.splits)
  have "length (if cs \<noteq> [] \<and> hd cs = 0x2D then tl cs else cs) \<le> length cs"
    by simp
  with scan_int_length [OF i] scan_frac_length [OF f] scan_exp_length [OF x]
  show ?thesis by linarith
qed

text \<open>The tokens of a text; \<open>None\<close> when some code unit begins no token.\<close>

definition emit :: "token \<Rightarrow> token list option \<Rightarrow> token list option" where
  "emit t r = map_option ((#) t) r"

function tokenize :: "js_string \<Rightarrow> token list option" where
  "tokenize [] = Some []"
| "tokenize (c # cs) =
     (if is_json_space c then tokenize cs
      else if c = 0x7B then emit LBrace (tokenize cs)
      else if c = 0x7D then emit RBrace (tokenize cs)
      else if c = 0x5B then emit LBracket (tokenize cs)
      else if c = 0x5D then emit RBracket (tokenize cs)
      else if c = 0x3A then emit Colon (tokenize cs)
      else if c = 0x2C then emit Comma (tokenize cs)
      else if c = 0x22 then
        (case scan_string cs of None \<Rightarrow> None | Some (s, rest) \<Rightarrow> emit (TString s) (tokenize rest))
      else if c = 0x2D \<or> is_digit c then
        (case scan_number (c # cs) of None \<Rightarrow> None | Some (n, rest) \<Rightarrow> emit (TNumber n) (tokenize rest))
      else if take 4 (c # cs) = lit ''true'' then emit TTrue (tokenize (drop 3 cs))
      else if take 5 (c # cs) = lit ''false'' then emit TFalse (tokenize (drop 4 cs))
      else if take 4 (c # cs) = lit ''null'' then emit TNull (tokenize (drop 3 cs))
      else None)"
  by pat_completeness auto
termination
proof (relation "measure length", simp_all, goal_cases)
  case (1 c cs x2 s rest)
  then show ?case using scan_string_length [of cs s rest] by simp
next
  case (2 c cs x2 n rest)
  then show ?case using scan_number_length [of "c # cs" n rest] by simp
qed

declare tokenize.simps [simp del]

text \<open>
  The parser reads one token at a time. \<open>want_value\<close> expects a value; \<open>after_value\<close>
  has a value and the stack of the arrays and objects it lies in, the innermost first:
  an array with its elements so far, an object with its members so far and the key
  whose value is being read.
\<close>

datatype frame =
    ArrayFrame "json list"
  | ObjectFrame "(js_string \<times> json) list" js_string

fun want_value :: "frame list \<Rightarrow> token list \<Rightarrow> json option"
  and after_value :: "json \<Rightarrow> frame list \<Rightarrow> token list \<Rightarrow> json option" where
  "want_value fs [] = None"
| "want_value fs (t # ts) =
     (case t of
        TNull \<Rightarrow> after_value JNull fs ts
      | TTrue \<Rightarrow> after_value (JBool True) fs ts
      | TFalse \<Rightarrow> after_value (JBool False) fs ts
      | TNumber n \<Rightarrow> after_value (JNumber n) fs ts
      | TString s \<Rightarrow> after_value (JString s) fs ts
      | LBracket \<Rightarrow>
          (case ts of
             RBracket # ts' \<Rightarrow> after_value (JArray []) fs ts'
           | _ \<Rightarrow> want_value (ArrayFrame [] # fs) ts)
      | LBrace \<Rightarrow>
          (case ts of
             RBrace # ts' \<Rightarrow> after_value (JObject []) fs ts'
           | TString k # Colon # ts' \<Rightarrow> want_value (ObjectFrame [] k # fs) ts'
           | _ \<Rightarrow> None)
      | _ \<Rightarrow> None)"
| "after_value v [] ts = (if ts = [] then Some v else None)"
| "after_value v (ArrayFrame xs # fs) ts =
     (case ts of
        Comma # ts' \<Rightarrow> want_value (ArrayFrame (xs @ [v]) # fs) ts'
      | RBracket # ts' \<Rightarrow> after_value (JArray (xs @ [v])) fs ts'
      | _ \<Rightarrow> None)"
| "after_value v (ObjectFrame kvs k # fs) ts =
     (case ts of
        Comma # TString k' # Colon # ts' \<Rightarrow> want_value (ObjectFrame (put k v kvs) k' # fs) ts'
      | RBrace # ts' \<Rightarrow> after_value (JObject (put k v kvs)) fs ts'
      | _ \<Rightarrow> None)"

text \<open>The value a text denotes; \<open>None\<close> when the text is not JSON.\<close>

definition parse_text :: "js_string \<Rightarrow> json option" where
  "parse_text text = (case tokenize text of None \<Rightarrow> None | Some ts \<Rightarrow> want_value [] ts)"

section \<open>Thrown values\<close>

text \<open>
  What a \<open>throw\<close> or a rejected promise carries: an instance of \<open>Error\<close> or of one of its
  subclasses, with the name of its class and its message, or any other value.
\<close>

datatype thrown =
    ErrorObject (class_name: js_string) (message: js_string)
  | OtherValue json

definition new_Error :: "js_string \<Rightarrow> thrown" where
  "new_Error msg = ErrorObject (lit ''Error'') msg"

definition new_SyntaxError :: "js_string \<Rightarrow> thrown" where
  "new_SyntaxError msg = ErrorObject (lit ''SyntaxError'') msg"

definition JSON_parse :: "(js_string \<Rightarrow> js_string) \<Rightarrow> js_string \<Rightarrow> thrown + json" where
  \<comment> \<open>The wording of the \<open>SyntaxError\<close> is left to the engine: it is the first argument.\<close>
  "JSON_parse wording text =
     (case parse_text text of
        None \<Rightarrow> Inl (new_SyntaxError (wording text))
      | Some v \<Rightarrow> Inr v)"

section \<open>The analysis service\<close>

subsection \<open>The request\<close>

datatype schema =
    NUMBER
  | STRING
  | ARRAY schema
  | OBJECT "(js_string \<times> schema) list" "js_string list"

definition analysis_schema :: schema where
  "analysis_schema =
     OBJECT
       [(lit ''overallScore'', NUMBER),
        (lit ''grammarImprovements'',
           OBJECT
             [(lit ''mistakes'', ARRAY STRING),
              (lit ''corrections'',
                 ARRAY (OBJECT [(lit ''original'', STRING), (lit ''improved'', STRING)]
                               [lit ''original'', lit ''improved'']))]
             [lit ''mistakes'', lit ''corrections'']),
        (lit ''atsOptimization'',
           OBJECT
             [(lit ''missingKeywords'', ARRAY STRING),
              (lit ''formattingIssues'', ARRAY STRING),
              (lit ''sectionOrderImprovements'', STRING)]
             [lit ''missingKeywords'', lit ''formattingIssues'', lit ''sectionOrderImprovements'']),
        (lit ''skillGapAnalysis'',
           OBJECT
             [(lit ''missingOrWeakSkills'', ARRAY STRING),
              (lit ''suggestions'', ARRAY STRING)]
             [lit ''missingOrWeakSkills'', lit ''suggestions'']),
        (lit ''sectionFeedback'',
           OBJECT
             [(lit ''professionalSummary'', STRING),
              (lit ''skills'', STRING),
              (lit ''experience'', STRING),
              (lit ''education'', STRING)]
             [lit ''professionalSummary'', lit ''skills'', lit ''experience'', lit ''education'']),
        (lit ''improvedSummary'', STRING),
        (lit ''sevenDayActionPlan'',
           ARRAY (OBJECT [(lit ''day'', NUMBER), (lit ''task'', STRING)]
                         [lit ''day'', lit ''task'']))]
       [lit ''overallScore'', lit ''grammarImprovements'', lit ''atsOptimization'',
        lit ''skillGapAnalysis'', lit ''sectionFeedback'', lit ''improvedSummary'',
        lit ''sevenDayActionPlan'']"

text \<open>
  What the descriptor asks of a reply: the declared type at every declared property that
  is present, and every required property present. The descriptor goes to the backend
  with the request; the module has no check of its own, and \<open>conforms\<close> serves only to
  say which replies are complete.
\<close>

fun conforms :: "schema \<Rightarrow> json \<Rightarrow> bool" where
  "conforms NUMBER v = (case v of JNumber _ \<Rightarrow> True | _ \<Rightarrow> False)"
| "conforms STRING v = (case v of JString _ \<Rightarrow> True | _ \<Rightarrow> False)"
| "conforms (ARRAY items) v = (case v of JArray xs \<Rightarrow> list_all (conforms items) xs | _ \<Rightarrow> False)"
| "conforms (OBJECT properties required) v =
     (case v of
        JObject kvs \<Rightarrow>
          list_all (\<lambda>k. map_of kvs k \<noteq> None) required \<and>
          list_all (\<lambda>p. case map_of kvs (fst p) of None \<Rightarrow> True | Some x \<Rightarrow> conforms (snd p) x)
            properties
      | _ \<Rightarrow> False)"

record config =
  responseMimeType :: js_string
  responseSchema :: schema

text \<open>\<open>contents\<close> is the list of contents, each the list of the texts of its parts.\<close>

record request =
  model :: js_string
  contents :: "js_string list list"
  config :: config

record response =
  "text" :: "js_string option"

definition prompt_intro :: js_string where
  "prompt_intro =
     lit ''\<newline>    You are a professional Resume Analyzer, ATS Expert, and Career Coach.\<newline>'' @
     lit ''    Analyze the user's resume based on the target job role and experience level provided.\<newline>'' @
     lit ''    \<newline>'' @
     lit ''    USER INPUT:\<newline>'' @
     lit ''    Resume Text: ''"

definition prompt_role_label :: js_string where
  "prompt_role_label = lit ''\<newline>    Target Job Role: ''"

definition prompt_level_label :: js_string where
  "prompt_level_label = lit ''\<newline>    Experience Level: ''"

definition prompt_instructions :: js_string where
  "prompt_instructions =
     lit ''\<newline>\<newline>'' @
     lit ''    INSTRUCTIONS:\<newline>'' @
     lit ''    Analyze based on:\<newline>'' @
     lit ''    - Grammar and language accuracy\<newline>'' @
     lit ''    - Professional tone and clarity\<newline>'' @
     lit ''    - ATS compatibility\<newline>'' @
     lit ''    - Relevance to the target job role\<newline>'' @
     lit ''    - Skills strength and gaps\<newline>'' @
     lit ''\<newline>'' @
     lit ''    Provide the response strictly as a JSON object matching the schema.\<newline>'' @
     lit ''  ''"

definition prompt_text :: "js_string \<Rightarrow> js_string \<Rightarrow> js_string \<Rightarrow> js_string" where
  "prompt_text truncatedText targetRole experienceLevel =
     prompt_intro @ truncatedText @ prompt_role_label @ targetRole @
     prompt_level_label @ experienceLevel @ prompt_instructions"

definition generation_request :: "js_string \<Rightarrow> request" where
  "generation_request prompt =
     \<lparr>model = lit ''gemini-3-flash-preview'',
      contents = [[prompt]],
      config = \<lparr>responseMimeType = lit ''application/json'', responseSchema = analysis_schema\<rparr>\<rparr>"

subsection \<open>The call\<close>

text \<open>
  The world a call runs in: the state of the remote service, which only the generation
  capability reads and writes, and the lines written with \<open>console.error\<close>, each a label
  and the value logged with it.
\<close>

record 'w world =
  remote :: 'w
  console :: "(js_string \<times> thrown) list"

text \<open>Lines 140 to 142: the reply's text, the test \<open>!text\<close>, and the parse.\<close>

definition read_reply :: "(js_string \<Rightarrow> thrown + json) \<Rightarrow> response \<Rightarrow> thrown + json" where
  "read_reply parse response =
     (case text response of
        None \<Rightarrow> Inl (new_Error (lit ''Empty AI response''))
      | Some t \<Rightarrow>
          if t = [] then Inl (new_Error (lit ''Empty AI response''))
          else parse t)"

text \<open>
  \<open>analyzeResume\<close>, with the two things it reaches outside the module as arguments:
  \<open>parse\<close> for \<open>JSON.parse\<close> and \<open>generateContent\<close> for \<open>ai.models.generateContent\<close>, which
  answers a request in a state of the remote service with a rejection or a response and
  the next state. The \<open>await\<close> is run to its end before the function goes on. \<open>Inl\<close> is
  the value thrown.
\<close>

definition analyzeResume ::
  "(js_string \<Rightarrow> thrown + json) \<Rightarrow> (request \<Rightarrow> 'w \<Rightarrow> (thrown + response) \<times> 'w) \<Rightarrow>
   js_string \<Rightarrow> js_string \<Rightarrow> js_string \<Rightarrow> 'w world \<Rightarrow> (thrown + json) \<times> 'w world" where
  "analyzeResume parse generateContent resumeText targetRole experienceLevel s =
     (let truncatedText = slice_string 0 15000 resumeText;
          prompt = prompt_text truncatedText targetRole experienceLevel;
          (answer, w) = generateContent (generation_request prompt) (remote s);
          s' = s\<lparr>remote := w\<rparr>;
          attempt = (case answer of
                       Inl rejection \<Rightarrow> Inl rejection
                     | Inr response \<Rightarrow> read_reply parse response)
      in case attempt of
           Inr report \<Rightarrow> (Inr report, s')
         | Inl caught \<Rightarrow>
             (Inl (new_Error (lit ''Failed to analyze resume. Please try again.'')),
              s'\<lparr>console := console s' @ [(lit ''Resume Analysis Error:'', caught)]\<rparr>))"

subsection \<open>Stand-ins for the capability\<close>

text \<open>
  \<open>canned\<close> answers every request with the same outcome. \<open>recording\<close> wraps a capability
  and keeps, beside its state, the list of the requests it was given.
\<close>

definition canned :: "thrown + response \<Rightarrow> request \<Rightarrow> 'w \<Rightarrow> (thrown + response) \<times> 'w" where
  "canned answer req w = (answer, w)"

definition recording ::
  "(request \<Rightarrow> 'w \<Rightarrow> (thrown + response) \<times> 'w) \<Rightarrow>
   request \<Rightarrow> 'w \<times> request list \<Rightarrow> (thrown + response) \<times> ('w \<times> request list)" where
  "recording g req st =
     (case st of (w, seen) \<Rightarrow> (case g req w of (answer, w') \<Rightarrow> (answer, (w', seen @ [req]))))"

definition requests :: "('w \<times> request list) world \<Rightarrow> request list" where
  "requests s = snd (remote s)"

text \<open>The wording V8 gives the \<open>SyntaxError\<close> for a text that stops short of a value.\<close>

definition end_of_input :: "js_string \<Rightarrow> js_string" where
  "end_of_input t = lit ''Unexpected end of JSON input''"

section \<open>The caller\<close>

text \<open>
  \<open>handleAnalyze\<close> of the component, with the function it calls as its argument. It
  reads the state of the render it was created in and its updates make the next state.
\<close>

datatype view = home | how_it_works | ats_guide | pricing

text \<open>The options of the experience level selector.\<close>

definition experience_levels :: "js_string list" where
  "experience_levels = map lit [''Student'', ''Fresher'', ''Junior'', ''Mid'', ''Senior'']"

text \<open>
  The component's state, and \<open>timers\<close> for what \<open>setTimeout\<close> has scheduled: the delay and
  the id of the element to scroll to.
\<close>

record app =
  view :: view
  resumeText :: js_string
  targetRole :: js_string
  experienceLevel :: js_string
  isAnalyzing :: bool
  result :: "json option"
  error :: "js_string option"
  timers :: "(nat \<times> js_string) list"

definition handleAnalyze ::
  "(js_string \<Rightarrow> js_string \<Rightarrow> js_string \<Rightarrow> 'w \<Rightarrow> (thrown + json) \<times> 'w) \<Rightarrow> app \<times> 'w \<Rightarrow> app \<times> 'w" where
  "handleAnalyze analyze st =
     (case st of (ui, w) \<Rightarrow>
        if trim (resumeText ui) = [] \<or> trim (targetRole ui) = [] then
          (ui\<lparr>error := Some (lit ''Please provide both resume text and target job role.'')\<rparr>, w)
        else
          (let ui1 = ui\<lparr>isAnalyzing := True, error := None\<rparr>;
               (outcome, w') = analyze (resumeText ui) (targetRole ui) (experienceLevel ui) w;
               ui2 = (case outcome of
                        Inr analysis \<Rightarrow>
                          ui1\<lparr>result := Some analysis, view := home,
                              timers := timers ui1 @ [(500, lit ''machine-results'')]\<rparr>
                      | Inl err \<Rightarrow>
                          ui1\<lparr>error := Some (case err of
                                               ErrorObject c msg \<Rightarrow> msg
                                             | OtherValue x \<Rightarrow>
                                                 lit ''An unexpected error occurred during analysis.''),
                              result := None\<rparr>)
           in (ui2\<lparr>isAnalyzing := False\<rparr>, w')))"

section \<open>Sample inputs\<close>

definition sample_sections_text :: js_string where
  \<open>sample_sections_text =
     lit ''"grammarImprovements":{"mistakes":["their/there"],'' @
     lit ''"corrections":[{"original":"I has","improved":"I have"}]},'' @
     lit ''"atsOptimization":{"missingKeywords":["SQL"],"formattingIssues":[],'' @
     lit ''"sectionOrderImprovements":"Skills first"},'' @
     lit ''"skillGapAnalysis":{"missingOrWeakSkills":["Docker"],"suggestions":[]},'' @
     lit ''"sectionFeedback":{"professionalSummary":"ok","skills":"ok",'' @
     lit ''"experience":"ok","education":"ok"},'' @
     lit ''"improvedSummary":"Engineer",'' @
     lit ''"sevenDayActionPlan":[{"day":9,"task":"Rewrite summary"}]}''\<close>

definition sample_sections :: "(js_string \<times> json) list" where
  "sample_sections =
     [(lit ''grammarImprovements'',
         JObject
           [(lit ''mistakes'', JArray [JString (lit ''their/there'')]),
            (lit ''corrections'',
               JArray [JObject [(lit ''original'', JString (lit ''I has'')),
                                (lit ''improved'', JString (lit ''I have''))]])]),
      (lit ''atsOptimization'',
         JObject
           [(lit ''missingKeywords'', JArray [JString (lit ''SQL'')]),
            (lit ''formattingIssues'', JArray []),
            (lit ''sectionOrderImprovements'', JString (lit ''Skills first''))]),
      (lit ''skillGapAnalysis'',
         JObject
           [(lit ''missingOrWeakSkills'', JArray [JString (lit ''Docker'')]),
            (lit ''suggestions'', JArray [])]),
      (lit ''sectionFeedback'',
         JObject
           [(lit ''professionalSummary'', JString (lit ''ok'')),
            (lit ''skills'', JString (lit ''ok'')),
            (lit ''experience'', JString (lit ''ok'')),
            (lit ''education'', JString (lit ''ok''))]),
      (lit ''improvedSummary'', JString (lit ''Engineer'')),
      (lit ''sevenDayActionPlan'',
         JArray [JObject [(lit ''day'', JNumber (Number False 9 0)),
                          (lit ''task'', JString (lit ''Rewrite summary''))]])]"

definition sample_reply :: js_string where
  \<open>sample_reply = lit ''{"overallScore":150,'' @ sample_sections_text\<close>

definition sample_report :: json where
  "sample_report = JObject ((lit ''overallScore'', JNumber (Number False 150 0)) # sample_sections)"

definition reply_without_score :: js_string where
  \<open>reply_without_score = lit ''{'' @ sample_sections_text\<close>

definition report_without_score :: json where
  "report_without_score = JObject sample_sections"

definition fetch_failed :: thrown where
  "fetch_failed = ErrorObject (lit ''TypeError'') (lit ''Failed to fetch'')"

definition filled_form :: app where
  "filled_form =
     \<lparr>view = home, resumeText = lit ''resume'', targetRole = lit ''Data Analyst'',
      experienceLevel = lit ''Junior'', isAnalyzing = False, result = None, error = None,
      timers = []\<rparr>"

definition blank_form :: app where
  "blank_form =
     \<lparr>view = home, resumeText = lit ''  '', targetRole = lit ''Data Analyst'',
      experienceLevel = lit ''Junior'', isAnalyzing = False, result = None, error = None,
      timers = []\<rparr>"

section \<open>Facts about the model\<close>



lemma analyzeResume_rejected:
  assumes "generateContent (generation_request (prompt_text (slice_string 0 15000 rt) role lvl)) (remote s) = (Inl e, w)"
  shows "analyzeResume parse generateContent rt role lvl s =
           (Inl (new_Error (lit ''Failed to analyze resume. Please try again.'')),
            s\<lparr>remote := w, console := console s @ [(lit ''Resume Analysis Error:'', e)]\<rparr>)"
  using assms by (simp add: analyzeResume_def Let_def)

lemma analyzeResume_answered:
  assumes "generateContent (generation_request (prompt_text (slice_string 0 15000 rt) role lvl)) (remote s) = (Inr reply, w)"
  shows "analyzeResume parse generateContent rt role lvl s =
           (case read_reply parse reply of
              Inr report \<Rightarrow> (Inr report, s\<lparr>remote := w\<rparr>)
            | Inl caught \<Rightarrow>
                (Inl (new_Error (lit ''Failed to analyze resume. Please try again.'')),
                 s\<lparr>remote := w, console := console s @ [(lit ''Resume Analysis Error:'', caught)]\<rparr>))"
  using assms by (simp add: analyzeResume_def Let_def split: sum.splits)

lemma requests_after:
  "requests (snd (analyzeResume parse (recording g) rt role lvl s)) =
     requests s @ [generation_request (prompt_text (slice_string 0 15000 rt) role lvl)]"
  by (simp add: analyzeResume_def Let_def recording_def requests_def
           split: prod.splits sum.splits)

lemma analyzeResume_canned:
  "analyzeResume parse (canned a) rt role lvl s = analyzeResume parse (canned a) rt' role' lvl' s"
  by (simp add: analyzeResume_def Let_def canned_def)

lemma tokenize_no_token:
  assumes "\<not> is_json_space c" and "\<not> is_digit c"
    and "c \<noteq> 0x7B" "c \<noteq> 0x7D" "c \<noteq> 0x5B" "c \<noteq> 0x5D" "c \<noteq> 0x3A" "c \<noteq> 0x2C" "c \<noteq> 0x22" "c \<noteq> 0x2D"
    and "c \<noteq> 0x74" "c \<noteq> 0x66" "c \<noteq> 0x6E"
  shows "tokenize (c # cs) = None"
  using assms by (simp add: tokenize.simps lit_def)

lemma beyond_ascii: "(0xA0::code_unit) \<le> c \<Longrightarrow> \<not> c \<le> 0x7F"
  by (simp add: word_le_nat_alt)

lemma white_space_is_no_token:
  assumes "is_white_space c" and "\<not> is_json_space c"
  shows "tokenize (c # cs) = None"
proof -
  from assms have "c = 0x0B \<or> c = 0x0C \<or> 0xA0 \<le> c"
    by (auto simp: is_white_space_def is_json_space_def word_le_nat_alt)
  then have "(c = 0x0B \<or> c = 0x0C) \<or> \<not> c \<le> 0x7F"
    using beyond_ascii [of c] by blast
  then have "\<not> is_digit c"
    and "c \<noteq> 0x7B" "c \<noteq> 0x7D" "c \<noteq> 0x5B" "c \<noteq> 0x5D" "c \<noteq> 0x3A" "c \<noteq> 0x2C" "c \<noteq> 0x22" "c \<noteq> 0x2D"
    and "c \<noteq> 0x74" "c \<noteq> 0x66" "c \<noteq> 0x6E"
    by (auto simp: is_digit_def word_le_nat_alt)
  with assms(2) show ?thesis
    by (rule tokenize_no_token)
qed

lemma tokenize_white_space:
  "list_all is_white_space t \<Longrightarrow> tokenize t = Some [] \<or> tokenize t = None"
proof (induction t)
  case Nil
  then show ?case by (simp add: tokenize.simps)
next
  case (Cons c cs)
  show ?case
  proof (cases "is_json_space c")
    case True
    then have "tokenize (c # cs) = tokenize cs"
      by (simp add: tokenize.simps)
    with Cons show ?thesis by simp
  next
    case False
    with Cons.prems have "tokenize (c # cs) = None"
      using white_space_is_no_token [of c cs] by simp
    then show ?thesis by simp
  qed
qed

lemma parse_text_white_space: "list_all is_white_space t \<Longrightarrow> parse_text t = None"
  using tokenize_white_space [of t] by (auto simp: parse_text_def)

lemma sample_reply_parses: "parse_text sample_reply = Some sample_report"
  by code_simp

lemma sample_report_conforms: "conforms analysis_schema sample_report"
  by code_simp

lemma reply_without_score_parses: "parse_text reply_without_score = Some report_without_score"
  by code_simp

lemma report_without_score_violates: "\<not> conforms analysis_schema report_without_score"
  by code_simp

lemma sample_reply_not_empty: "sample_reply \<noteq> []"
  by (simp add: sample_reply_def lit_def)

lemma reply_without_score_not_empty: "reply_without_score \<noteq> []"
  by (simp add: reply_without_score_def lit_def)

lemma open_array_is_rejected: "parse_text (lit ''['') = None"
  by code_simp

lemma open_arrays_are_rejected: "parse_text (lit ''[['') = None"
  by code_simp

lemma blank_is_rejected: "parse_text (lit '' '') = None"
  by code_simp

lemma canned_answer: "canned a req w = (a, w)"
  by (simp add: canned_def)


section \<open>The claims\<close>

text \<open>
  In every statement below \<open>parse\<close> and the capability are arbitrary unless they are
  named, and the world \<open>s\<close> is any world. A statement about \<open>recording g\<close> reads the list
  of requests that \<open>g\<close> was given.
\<close>

subsection \<open>C1: a reply with a required field missing\<close>

text \<open>
  C1, as amended. The reply is not checked against the schema: when the body parses to a
  value that lacks a required field (or has one of the wrong type), \<open>analyzeResume\<close>
  returns that value as its result, writes nothing to the console and throws nothing.
\<close>

theorem C1_missing_field_is_returned:
  assumes "generateContent (generation_request (prompt_text (slice_string 0 15000 rt) role lvl))
             (remote s) = (Inr reply, w)"
    and "text reply = Some body" and "body \<noteq> []"
    and "parse body = Inr v" and "\<not> conforms analysis_schema v"
  shows "analyzeResume parse generateContent rt role lvl s = (Inr v, s\<lparr>remote := w\<rparr>)"
  using assms by (simp add: analyzeResume_answered read_reply_def)

text \<open>The sample reply with \<open>overallScore\<close> removed comes back as the report.\<close>

theorem C1_missing_field_is_returned_witness:
  "\<not> conforms analysis_schema report_without_score \<and>
   analyzeResume (JSON_parse end_of_input) (canned (Inr \<lparr>text = Some reply_without_score\<rparr>))
     (lit ''resume'') (lit ''Data Analyst'') (lit ''Junior'') \<lparr>remote = (), console = []\<rparr> =
     (Inr report_without_score, \<lparr>remote = (), console = []\<rparr>)"
  using C1_missing_field_is_returned
          [of "canned (Inr \<lparr>text = Some reply_without_score\<rparr>)" "lit ''resume''" "lit ''Data Analyst''"
              "lit ''Junior''" "\<lparr>remote = (), console = []\<rparr>" "\<lparr>text = Some reply_without_score\<rparr>" "()"
              reply_without_score "JSON_parse end_of_input" report_without_score]
  by (simp add: canned_answer JSON_parse_def reply_without_score_parses
           report_without_score_violates reply_without_score_not_empty)

text \<open>
  C1 as written fails: the body parses, the parsed value has no \<open>overallScore\<close>, and the
  call succeeds with it.
\<close>

theorem C1_counterexample:
  "JSON_parse end_of_input reply_without_score = Inr report_without_score \<and>
   \<not> conforms analysis_schema report_without_score \<and>
   field ''overallScore'' report_without_score = None \<and>
   fst (analyzeResume (JSON_parse end_of_input) (canned (Inr \<lparr>text = Some reply_without_score\<rparr>))
          (lit ''resume'') (lit ''Data Analyst'') (lit ''Junior'') \<lparr>remote = (), console = []\<rparr>) =
     Inr report_without_score"
proof -
  have "field ''overallScore'' report_without_score = None"
    by code_simp
  then show ?thesis
    by (simp add: analyzeResume_def Let_def canned_def read_reply_def JSON_parse_def
             reply_without_score_parses report_without_score_violates reply_without_score_not_empty)
qed

subsection \<open>C2: a complete reply\<close>

text \<open>
  C2. When the body parses to a value with every required field, well typed, the result
  of \<open>analyzeResume\<close> is that very value: every field of the report is the parsed field,
  whatever its content.
\<close>

theorem C2_report_is_parsed_value:
  assumes "generateContent (generation_request (prompt_text (slice_string 0 15000 rt) role lvl))
             (remote s) = (Inr reply, w)"
    and "text reply = Some body" and "body \<noteq> []"
    and "parse body = Inr v" and "conforms analysis_schema v"
  shows "analyzeResume parse generateContent rt role lvl s = (Inr v, s\<lparr>remote := w\<rparr>)"
  using assms by (simp add: analyzeResume_answered read_reply_def)

text \<open>The sample reply: a score of 150 and a day 9 reach the caller as they are.\<close>

theorem C2_report_is_parsed_value_witness:
  "conforms analysis_schema sample_report \<and>
   analyzeResume (JSON_parse end_of_input) (canned (Inr \<lparr>text = Some sample_reply\<rparr>))
     (lit ''resume'') (lit ''Data Analyst'') (lit ''Junior'') \<lparr>remote = (), console = []\<rparr> =
     (Inr sample_report, \<lparr>remote = (), console = []\<rparr>) \<and>
   field ''overallScore'' sample_report = Some (JNumber (Number False 150 0)) \<and>
   Option.bind (Option.bind (field ''sevenDayActionPlan'' sample_report) (element 0)) (field ''day'') =
     Some (JNumber (Number False 9 0))"
proof -
  have "field ''overallScore'' sample_report = Some (JNumber (Number False 150 0))"
    by code_simp
  moreover have "Option.bind (Option.bind (field ''sevenDayActionPlan'' sample_report) (element 0)) (field ''day'') =
     Some (JNumber (Number False 9 0))"
    by code_simp
  ultimately show ?thesis
    using C2_report_is_parsed_value
          [of "canned (Inr \<lparr>text = Some sample_reply\<rparr>)" "lit ''resume''" "lit ''Data Analyst''"
              "lit ''Junior''" "\<lparr>remote = (), console = []\<rparr>" "\<lparr>text = Some sample_reply\<rparr>" "()"
              sample_reply "JSON_parse end_of_input" sample_report]
    by (simp add: canned_answer JSON_parse_def sample_reply_parses
             sample_report_conforms sample_reply_not_empty)
qed

subsection \<open>C3: truncation\<close>



subsection \<open>C4: the prompt depends on the three inputs only\<close>

text \<open>
  C4. The request handed to the capability is a function of the document text, the role
  and the level: two runs on the same three inputs hand over the same request, whatever
  the parser, the capability, the state of the remote service and the console are, and
  a second run that starts in the world the first one left repeats the request.
\<close>

theorem C4_prompt_is_a_function_of_the_inputs:
  "last (requests (snd (analyzeResume parse1 (recording g1) rt role lvl s1))) =
     generation_request (prompt_text (slice_string 0 15000 rt) role lvl) \<and>
   last (requests (snd (analyzeResume parse1 (recording g1) rt role lvl s1))) =
     last (requests (snd (analyzeResume parse2 (recording g2) rt role lvl s2))) \<and>
   requests (snd (analyzeResume parse2 (recording g2) rt role lvl
                   (snd (analyzeResume parse1 (recording g2) rt role lvl s2)))) =
     requests s2 @ [generation_request (prompt_text (slice_string 0 15000 rt) role lvl),
                    generation_request (prompt_text (slice_string 0 15000 rt) role lvl)]"
  by (simp add: requests_after)

text \<open>A failing and an answering capability, in different worlds, get the same request.\<close>

theorem C4_prompt_is_a_function_of_the_inputs_witness:
  "last (requests (snd (analyzeResume (JSON_parse end_of_input) (recording (canned (Inl fetch_failed)))
           (lit ''resume'') (lit ''Data Analyst'') (lit ''Junior'') \<lparr>remote = ((), []), console = []\<rparr>))) =
   last (requests (snd (analyzeResume (JSON_parse end_of_input)
           (recording (canned (Inr \<lparr>text = Some sample_reply\<rparr>)))
           (lit ''resume'') (lit ''Data Analyst'') (lit ''Junior'')
           \<lparr>remote = ((), [generation_request []]), console = []\<rparr>)))"
  using C4_prompt_is_a_function_of_the_inputs
          [of "JSON_parse end_of_input" "canned (Inl fetch_failed)" "lit ''resume''" "lit ''Data Analyst''"
              "lit ''Junior''" "\<lparr>remote = ((), []), console = []\<rparr>" "JSON_parse end_of_input"
              "canned (Inr \<lparr>text = Some sample_reply\<rparr>)"
              "\<lparr>remote = ((), [generation_request []]), console = []\<rparr>"]
  by blast

subsection \<open>C5: an empty reply\<close>

text \<open>
  C5, as amended. When the call succeeds and the reply has no text or the empty text, the
  catch block gets \<open>Error("Empty AI response")\<close>, logs it, and the call fails without a
  report. A text that is not empty and consists of white space only fails too, without a
  report, but at \<open>JSON.parse\<close>: what is caught and logged is its \<open>SyntaxError\<close>.
\<close>

theorem C5_empty_reply:
  assumes "generateContent (generation_request (prompt_text (slice_string 0 15000 rt) role lvl))
             (remote s) = (Inr reply, w)"
  shows "(text reply = None \<or> text reply = Some [] \<longrightarrow>
            analyzeResume parse generateContent rt role lvl s =
              (Inl (new_Error (lit ''Failed to analyze resume. Please try again.'')),
               s\<lparr>remote := w,
                 console := console s @
                   [(lit ''Resume Analysis Error:'', new_Error (lit ''Empty AI response''))]\<rparr>)) \<and>
         (\<forall>body. text reply = Some body \<and> body \<noteq> [] \<and> list_all is_white_space body \<longrightarrow>
            analyzeResume (JSON_parse wording) generateContent rt role lvl s =
              (Inl (new_Error (lit ''Failed to analyze resume. Please try again.'')),
               s\<lparr>remote := w,
                 console := console s @
                   [(lit ''Resume Analysis Error:'', new_SyntaxError (wording body))]\<rparr>))"
  using assms
  by (auto simp: analyzeResume_answered read_reply_def JSON_parse_def parse_text_white_space)

text \<open>The empty text, and the text of one space.\<close>

theorem C5_empty_reply_witness:
  "analyzeResume (JSON_parse end_of_input) (canned (Inr \<lparr>text = Some []\<rparr>))
     (lit ''resume'') (lit ''Data Analyst'') (lit ''Junior'') \<lparr>remote = (), console = []\<rparr> =
     (Inl (new_Error (lit ''Failed to analyze resume. Please try again.'')),
      \<lparr>remote = (),
       console = [(lit ''Resume Analysis Error:'', new_Error (lit ''Empty AI response''))]\<rparr>) \<and>
   lit '' '' \<noteq> [] \<and> list_all is_white_space (lit '' '') \<and>
   analyzeResume (JSON_parse end_of_input) (canned (Inr \<lparr>text = Some (lit '' '')\<rparr>))
     (lit ''resume'') (lit ''Data Analyst'') (lit ''Junior'') \<lparr>remote = (), console = []\<rparr> =
     (Inl (new_Error (lit ''Failed to analyze resume. Please try again.'')),
      \<lparr>remote = (),
       console = [(lit ''Resume Analysis Error:'', new_SyntaxError (end_of_input (lit '' '')))]\<rparr>)"
  using C5_empty_reply
          [of "canned (Inr \<lparr>text = Some []\<rparr>)" "lit ''resume''" "lit ''Data Analyst''" "lit ''Junior''"
              "\<lparr>remote = (), console = []\<rparr>" "\<lparr>text = Some []\<rparr>" "()" "JSON_parse end_of_input" end_of_input]
        C5_empty_reply
          [of "canned (Inr \<lparr>text = Some (lit '' '')\<rparr>)" "lit ''resume''" "lit ''Data Analyst''" "lit ''Junior''"
              "\<lparr>remote = (), console = []\<rparr>" "\<lparr>text = Some (lit '' '')\<rparr>" "()" "JSON_parse end_of_input" end_of_input]
  by (simp add: canned_answer lit_def is_white_space_def)

text \<open>
  C5 as written fails at the text of one space: the error caught is the \<open>SyntaxError\<close> of
  the parser, not the error of the empty reply.
\<close>

theorem C5_counterexample:
  "list_all is_white_space (lit '' '') \<and>
   analyzeResume (JSON_parse end_of_input) (canned (Inr \<lparr>text = Some (lit '' '')\<rparr>))
     (lit ''resume'') (lit ''Data Analyst'') (lit ''Junior'') \<lparr>remote = (), console = []\<rparr> =
     (Inl (new_Error (lit ''Failed to analyze resume. Please try again.'')),
      \<lparr>remote = (),
       console = [(lit ''Resume Analysis Error:'',
                   new_SyntaxError (lit ''Unexpected end of JSON input''))]\<rparr>) \<and>
   new_SyntaxError (lit ''Unexpected end of JSON input'') \<noteq> new_Error (lit ''Empty AI response'')"
proof -
  have ws: "list_all is_white_space (lit '' '')"
    by (simp add: lit_def is_white_space_def)
  have "lit '' '' \<noteq> []"
    by (simp add: lit_def)
  moreover have "new_SyntaxError (lit ''Unexpected end of JSON input'') \<noteq> new_Error (lit ''Empty AI response'')"
    by (simp add: new_SyntaxError_def new_Error_def lit_def)
  ultimately show ?thesis
    using ws
    by (simp add: analyzeResume_def Let_def canned_def read_reply_def JSON_parse_def end_of_input_def
             blank_is_rejected)
qed

subsection \<open>C6: a reply that does not parse\<close>

text \<open>
  C6, as amended. When the reply's text is not empty and \<open>JSON.parse\<close> throws, the catch
  block gets what the parser threw and logs it, and the call fails with the module's one
  error and without a report. The text of the reply is attached to nothing: the outcome
  depends on it only through the parser's error.
\<close>

theorem C6_unparseable_reply:
  assumes "generateContent (generation_request (prompt_text (slice_string 0 15000 rt) role lvl))
             (remote s) = (Inr reply, w)"
    and "text reply = Some body" and "body \<noteq> []"
    and "parse body = Inl e"
  shows "analyzeResume parse generateContent rt role lvl s =
           (Inl (new_Error (lit ''Failed to analyze resume. Please try again.'')),
            s\<lparr>remote := w, console := console s @ [(lit ''Resume Analysis Error:'', e)]\<rparr>)"
  using assms by (simp add: analyzeResume_answered read_reply_def)

text \<open>An array that is opened and never closed.\<close>

theorem C6_unparseable_reply_witness:
  "lit ''['' \<noteq> [] \<and>
   JSON_parse end_of_input (lit ''['') = Inl (new_SyntaxError (lit ''Unexpected end of JSON input'')) \<and>
   analyzeResume (JSON_parse end_of_input) (canned (Inr \<lparr>text = Some (lit ''['')\<rparr>))
     (lit ''resume'') (lit ''Data Analyst'') (lit ''Junior'') \<lparr>remote = (), console = []\<rparr> =
     (Inl (new_Error (lit ''Failed to analyze resume. Please try again.'')),
      \<lparr>remote = (),
       console = [(lit ''Resume Analysis Error:'',
                   new_SyntaxError (lit ''Unexpected end of JSON input''))]\<rparr>)"
proof -
  have ne: "lit ''['' \<noteq> []"
    by (simp add: lit_def)
  have p: "JSON_parse end_of_input (lit ''['') = Inl (new_SyntaxError (lit ''Unexpected end of JSON input''))"
    by (simp add: JSON_parse_def end_of_input_def open_array_is_rejected)
  show ?thesis
    using ne p
      C6_unparseable_reply
          [of "canned (Inr \<lparr>text = Some (lit ''['')\<rparr>)" "lit ''resume''" "lit ''Data Analyst''" "lit ''Junior''"
              "\<lparr>remote = (), console = []\<rparr>" "\<lparr>text = Some (lit ''['')\<rparr>" "()" "lit ''[''"
              "JSON_parse end_of_input" "new_SyntaxError (lit ''Unexpected end of JSON input'')"]
    by (simp add: canned_answer)
qed

text \<open>
  C6 as written fails: two different texts that do not parse give the same error thrown
  and the same line on the console, so neither carries the text.
\<close>

theorem C6_counterexample:
  "lit ''['' \<noteq> lit ''[['' \<and>
   JSON_parse end_of_input (lit ''['') = Inl (new_SyntaxError (lit ''Unexpected end of JSON input'')) \<and>
   JSON_parse end_of_input (lit ''[['') = Inl (new_SyntaxError (lit ''Unexpected end of JSON input'')) \<and>
   analyzeResume (JSON_parse end_of_input) (canned (Inr \<lparr>text = Some (lit ''['')\<rparr>))
     (lit ''resume'') (lit ''Data Analyst'') (lit ''Junior'') \<lparr>remote = (), console = []\<rparr> =
   analyzeResume (JSON_parse end_of_input) (canned (Inr \<lparr>text = Some (lit ''[['')\<rparr>))
     (lit ''resume'') (lit ''Data Analyst'') (lit ''Junior'') \<lparr>remote = (), console = []\<rparr> \<and>
   fst (analyzeResume (JSON_parse end_of_input) (canned (Inr \<lparr>text = Some (lit ''['')\<rparr>))
     (lit ''resume'') (lit ''Data Analyst'') (lit ''Junior'') \<lparr>remote = (), console = []\<rparr>) =
     Inl (new_Error (lit ''Failed to analyze resume. Please try again.''))"
proof -
  have "lit ''['' \<noteq> lit ''[[''" and "lit ''['' \<noteq> []" and "lit ''[['' \<noteq> []"
    by (simp_all add: lit_def)
  then show ?thesis
    by (simp add: analyzeResume_def Let_def canned_def read_reply_def JSON_parse_def end_of_input_def
             open_array_is_rejected open_arrays_are_rejected)
qed

subsection \<open>C7: a failure of the capability\<close>

text \<open>
  C7, as amended. When the capability rejects the request, \<open>analyzeResume\<close> fails at once
  with \<open>Error("Failed to analyze resume. Please try again.")\<close>, the error it throws for
  every failure: the value thrown has no kind of its own, and the rejection reaches the
  console only, where the catch block logs it. No parser is consulted, the outcome being
  the same for every parser. The capability has been given one request and no more. The
  caller does not try again either: \<open>handleAnalyze\<close> shows the message, and the
  capability has still been given that one request.
\<close>

theorem C7_transport_failure:
  assumes "g (generation_request (prompt_text (slice_string 0 15000 rt) role lvl)) w = (Inl e, w')"
  shows "analyzeResume parse (recording g) rt role lvl \<lparr>remote = (w, seen), console = c\<rparr> =
           (Inl (new_Error (lit ''Failed to analyze resume. Please try again.'')),
            \<lparr>remote = (w', seen @ [generation_request (prompt_text (slice_string 0 15000 rt) role lvl)]),
             console = c @ [(lit ''Resume Analysis Error:'', e)]\<rparr>) \<and>
         analyzeResume parse (recording g) rt role lvl \<lparr>remote = (w, seen), console = c\<rparr> =
           analyzeResume parse' (recording g) rt role lvl \<lparr>remote = (w, seen), console = c\<rparr> \<and>
         (resumeText ui = rt \<and> targetRole ui = role \<and> experienceLevel ui = lvl \<and>
          trim rt \<noteq> [] \<and> trim role \<noteq> [] \<longrightarrow>
            handleAnalyze (analyzeResume parse (recording g)) (ui, \<lparr>remote = (w, seen), console = c\<rparr>) =
              (ui\<lparr>isAnalyzing := False,
                  error := Some (lit ''Failed to analyze resume. Please try again.''),
                  result := None\<rparr>,
               \<lparr>remote = (w', seen @ [generation_request (prompt_text (slice_string 0 15000 rt) role lvl)]),
                console = c @ [(lit ''Resume Analysis Error:'', e)]\<rparr>))"
proof -
  have "recording g (generation_request (prompt_text (slice_string 0 15000 rt) role lvl)) (w, seen) =
          (Inl e, (w', seen @ [generation_request (prompt_text (slice_string 0 15000 rt) role lvl)]))"
    using assms by (simp add: recording_def)
  then have run: "analyzeResume p (recording g) rt role lvl \<lparr>remote = (w, seen), console = c\<rparr> =
           (Inl (new_Error (lit ''Failed to analyze resume. Please try again.'')),
            \<lparr>remote = (w', seen @ [generation_request (prompt_text (slice_string 0 15000 rt) role lvl)]),
             console = c @ [(lit ''Resume Analysis Error:'', e)]\<rparr>)" for p
    by (simp add: analyzeResume_rejected)
  then show ?thesis
    by (simp add: handleAnalyze_def Let_def new_Error_def)
qed

text \<open>A fetch that fails, from a form that is filled in.\<close>

theorem C7_transport_failure_witness:
  "canned (Inl fetch_failed)
     (generation_request (prompt_text (slice_string 0 15000 (lit ''resume'')) (lit ''Data Analyst'') (lit ''Junior'')))
     () = (Inl fetch_failed, ()) \<and>
   analyzeResume (JSON_parse end_of_input) (recording (canned (Inl fetch_failed)))
     (lit ''resume'') (lit ''Data Analyst'') (lit ''Junior'') \<lparr>remote = ((), []), console = []\<rparr> =
     (Inl (new_Error (lit ''Failed to analyze resume. Please try again.'')),
      \<lparr>remote = ((), [generation_request
                        (prompt_text (slice_string 0 15000 (lit ''resume'')) (lit ''Data Analyst'') (lit ''Junior''))]),
       console = [(lit ''Resume Analysis Error:'', fetch_failed)]\<rparr>) \<and>
   trim (lit ''resume'') \<noteq> [] \<and> trim (lit ''Data Analyst'') \<noteq> [] \<and>
   handleAnalyze (analyzeResume (JSON_parse end_of_input) (recording (canned (Inl fetch_failed))))
     (filled_form, \<lparr>remote = ((), []), console = []\<rparr>) =
     (filled_form\<lparr>isAnalyzing := False,
                  error := Some (lit ''Failed to analyze resume. Please try again.''),
                  result := None\<rparr>,
      \<lparr>remote = ((), [generation_request
                        (prompt_text (slice_string 0 15000 (lit ''resume'')) (lit ''Data Analyst'') (lit ''Junior''))]),
       console = [(lit ''Resume Analysis Error:'', fetch_failed)]\<rparr>)"
proof -
  have filled: "resumeText filled_form = lit ''resume''" "targetRole filled_form = lit ''Data Analyst''"
    "experienceLevel filled_form = lit ''Junior''"
    by (simp_all add: filled_form_def)
  have given: "trim (lit ''resume'') \<noteq> []" "trim (lit ''Data Analyst'') \<noteq> []"
    by (simp_all add: trim_def lit_def is_white_space_def)
  show ?thesis
    using filled given
      C7_transport_failure
          [of "canned (Inl fetch_failed)" "lit ''resume''" "lit ''Data Analyst''" "lit ''Junior''" "()"
              fetch_failed "()" "JSON_parse end_of_input" "[]" "[]" "JSON_parse end_of_input" filled_form]
    by (simp add: canned_answer)
qed

text \<open>
  C7 as written fails: the error thrown when the fetch fails is the error thrown when the
  reply has no text, and it is not the rejection, so what \<open>analyzeResume\<close> returns does not
  tell a failure of the transport from any other failure.
\<close>

theorem C7_counterexample:
  "fst (analyzeResume (JSON_parse end_of_input) (canned (Inl fetch_failed))
          (lit ''resume'') (lit ''Data Analyst'') (lit ''Junior'') \<lparr>remote = (), console = []\<rparr>) =
     Inl (new_Error (lit ''Failed to analyze resume. Please try again.'')) \<and>
   fst (analyzeResume (JSON_parse end_of_input) (canned (Inl fetch_failed))
          (lit ''resume'') (lit ''Data Analyst'') (lit ''Junior'') \<lparr>remote = (), console = []\<rparr>) =
   fst (analyzeResume (JSON_parse end_of_input) (canned (Inr \<lparr>text = None\<rparr>))
          (lit ''resume'') (lit ''Data Analyst'') (lit ''Junior'') \<lparr>remote = (), console = []\<rparr>) \<and>
   new_Error (lit ''Failed to analyze resume. Please try again.'') \<noteq> fetch_failed \<and>
   console (snd (analyzeResume (JSON_parse end_of_input) (canned (Inl fetch_failed))
          (lit ''resume'') (lit ''Data Analyst'') (lit ''Junior'') \<lparr>remote = (), console = []\<rparr>)) =
     [(lit ''Resume Analysis Error:'', fetch_failed)]"
proof -
  have "new_Error (lit ''Failed to analyze resume. Please try again.'') \<noteq> fetch_failed"
    by (simp add: new_Error_def fetch_failed_def lit_def)
  then show ?thesis
    by (simp add: analyzeResume_def Let_def canned_def read_reply_def)
qed

subsection \<open>C8: the check before the call\<close>

text \<open>
  C8. When the document text or the role is empty after \<open>trim\<close>, \<open>handleAnalyze\<close> sets the
  error shown to the user and does nothing else: the result is the same for every
  \<open>analyze\<close> it could have called, and the world that \<open>analyze\<close> would have run in is
  untouched.
\<close>

theorem C8_empty_input_stops_before_the_call:
  assumes "trim (resumeText ui) = [] \<or> trim (targetRole ui) = []"
  shows "handleAnalyze analyze (ui, w) =
           (ui\<lparr>error := Some (lit ''Please provide both resume text and target job role.'')\<rparr>, w)"
  using assms by (auto simp: handleAnalyze_def)

text \<open>A form whose document text is two spaces: no request is recorded.\<close>

theorem C8_empty_input_stops_before_the_call_witness:
  "trim (resumeText blank_form) = [] \<and>
   handleAnalyze
     (analyzeResume (JSON_parse end_of_input) (recording (canned (Inr \<lparr>text = Some sample_reply\<rparr>))))
     (blank_form, \<lparr>remote = ((), []), console = []\<rparr>) =
     (blank_form\<lparr>error := Some (lit ''Please provide both resume text and target job role.'')\<rparr>,
      \<lparr>remote = ((), []), console = []\<rparr>)"
proof -
  have blank: "trim (resumeText blank_form) = []"
    by (simp add: blank_form_def trim_def lit_def is_white_space_def)
  then show ?thesis
    using C8_empty_input_stops_before_the_call
            [of blank_form
                "analyzeResume (JSON_parse end_of_input) (recording (canned (Inr \<lparr>text = Some sample_reply\<rparr>)))"
                "\<lparr>remote = ((), []), console = []\<rparr>"]
    by simp
qed

subsection \<open>C9: the experience level\<close>

text \<open>
  C9. Whatever string the experience level is, one of the five options or not,
  \<open>analyzeResume\<close> makes its request, and the prompt has the string as it is between the
  label of the level and the instructions. The function itself draws no distinction
  between levels: with a capability that answers every request alike, the outcome is the
  same for any two levels.
\<close>

theorem C9_level_is_not_checked:
  "requests (snd (analyzeResume parse (recording g) rt role lvl s)) =
     requests s @
     [generation_request
        (prompt_intro @ slice_string 0 15000 rt @ prompt_role_label @ role @
         prompt_level_label @ lvl @ prompt_instructions)] \<and>
   analyzeResume parse (canned a) rt role lvl s' = analyzeResume parse (canned a) rt role lvl' s'"
  using analyzeResume_canned [of parse a rt role lvl s' rt role lvl']
  by (simp add: requests_after prompt_text_def)

text \<open>A level that is none of the options.\<close>

theorem C9_level_is_not_checked_witness:
  "lit ''Wizard'' \<notin> set experience_levels \<and>
   requests (snd (analyzeResume (JSON_parse end_of_input) (recording (canned (Inr \<lparr>text = Some sample_reply\<rparr>)))
                    (lit ''resume'') (lit ''Data Analyst'') (lit ''Wizard'')
                    \<lparr>remote = ((), []), console = []\<rparr>)) =
     [generation_request
        (prompt_intro @ slice_string 0 15000 (lit ''resume'') @ prompt_role_label @ lit ''Data Analyst'' @
         prompt_level_label @ lit ''Wizard'' @ prompt_instructions)] \<and>
   analyzeResume (JSON_parse end_of_input) (canned (Inr \<lparr>text = Some sample_reply\<rparr>))
     (lit ''resume'') (lit ''Data Analyst'') (lit ''Wizard'') \<lparr>remote = (), console = []\<rparr> =
   analyzeResume (JSON_parse end_of_input) (canned (Inr \<lparr>text = Some sample_reply\<rparr>))
     (lit ''resume'') (lit ''Data Analyst'') (lit ''Junior'') \<lparr>remote = (), console = []\<rparr>"
proof -
  have "lit ''Wizard'' \<notin> set experience_levels"
    by (simp add: experience_levels_def lit_def)
  then show ?thesis
    using C9_level_is_not_checked
            [of "JSON_parse end_of_input" "canned (Inr \<lparr>text = Some sample_reply\<rparr>)" "lit ''resume''"
                "lit ''Data Analyst''" "lit ''Wizard''" "\<lparr>remote = ((), []), console = []\<rparr>"
                "Inr \<lparr>text = Some sample_reply\<rparr>" "\<lparr>remote = (), console = []\<rparr>" "lit ''Junior''"]
    by (simp add: requests_def)
qed

subsection \<open>C10: one error for every failure\<close>

text \<open>
  C10. Whatever \<open>analyzeResume\<close> throws is \<open>Error("Failed to analyze resume. Please try
  again.")\<close>; and it throws when the capability rejects the request, when the reply has no
  text or the empty text, and when the parser throws. The value thrown is one and the
  same, so it tells the caller nothing about the cause.
\<close>

theorem C10_one_message_for_every_failure:
  "(\<forall>err. fst (analyzeResume parse g rt role lvl s) = Inl err \<longrightarrow>
       err = new_Error (lit ''Failed to analyze resume. Please try again.'')) \<and>
   ((\<exists>e. fst (g (generation_request (prompt_text (slice_string 0 15000 rt) role lvl)) (remote s)) = Inl e) \<or>
    (\<exists>reply. fst (g (generation_request (prompt_text (slice_string 0 15000 rt) role lvl)) (remote s)) = Inr reply \<and>
       (text reply = None \<or> text reply = Some [] \<or>
        (\<exists>body e. text reply = Some body \<and> parse body = Inl e))) \<longrightarrow>
    fst (analyzeResume parse g rt role lvl s) =
      Inl (new_Error (lit ''Failed to analyze resume. Please try again.'')))"
  by (auto simp: analyzeResume_def Let_def read_reply_def split: prod.splits sum.splits option.splits)

text \<open>A fetch that fails, a reply without text, and a reply that does not parse.\<close>

theorem C10_one_message_for_every_failure_witness:
  "fst (analyzeResume (JSON_parse end_of_input) (canned (Inl fetch_failed))
          (lit ''resume'') (lit ''Data Analyst'') (lit ''Junior'') \<lparr>remote = (), console = []\<rparr>) =
     Inl (new_Error (lit ''Failed to analyze resume. Please try again.'')) \<and>
   fst (analyzeResume (JSON_parse end_of_input) (canned (Inr \<lparr>text = None\<rparr>))
          (lit ''resume'') (lit ''Data Analyst'') (lit ''Junior'') \<lparr>remote = (), console = []\<rparr>) =
     Inl (new_Error (lit ''Failed to analyze resume. Please try again.'')) \<and>
   fst (analyzeResume (JSON_parse end_of_input) (canned (Inr \<lparr>text = Some (lit ''['')\<rparr>))
          (lit ''resume'') (lit ''Data Analyst'') (lit ''Junior'') \<lparr>remote = (), console = []\<rparr>) =
     Inl (new_Error (lit ''Failed to analyze resume. Please try again.''))"
proof -
  have "JSON_parse end_of_input (lit ''['') = Inl (new_SyntaxError (end_of_input (lit ''['')))"
    by (simp add: JSON_parse_def open_array_is_rejected)
  then show ?thesis
    using C10_one_message_for_every_failure
            [of "JSON_parse end_of_input" "canned (Inl fetch_failed)" "lit ''resume''" "lit ''Data Analyst''"
                "lit ''Junior''" "\<lparr>remote = (), console = []\<rparr>", THEN conjunct2]
          C10_one_message_for_every_failure
            [of "JSON_parse end_of_input" "canned (Inr \<lparr>text = None\<rparr>)" "lit ''resume''" "lit ''Data Analyst''"
                "lit ''Junior''" "\<lparr>remote = (), console = []\<rparr>", THEN conjunct2]
          C10_one_message_for_every_failure
            [of "JSON_parse end_of_input" "canned (Inr \<lparr>text = Some (lit ''['')\<rparr>)" "lit ''resume''"
                "lit ''Data Analyst''" "lit ''Junior''" "\<lparr>remote = (), console = []\<rparr>", THEN conjunct2]
    by (simp add: canned_answer)
qed

end
